theory Spec2Isabelle
  imports Main
begin

section \<open>The calendar adapter of \<^verbatim>\<open>src/index.ts\<close>\<close>

text \<open>
  The server translates tool calls into AppleScript text, runs the text with
  \<^verbatim>\<open>osascript\<close> and parses the reply. The model keeps the functions of
  \<^verbatim>\<open>src/index.ts\<close> under their names. A JavaScript string is a \<open>string\<close>: each
  \<open>char\<close> stands for one code unit. An optional parameter or object field is an
  \<open>option\<close>, with \<open>None\<close> for \<^verbatim>\<open>undefined\<close>.
\<close>

subsection \<open>Characters and the string functions of the runtime\<close>

definition dq :: char where
  "dq = CHR 0x22"

definition bs :: char where
  "bs = CHR 0x5C"

definition nl :: char where
  "nl = CHR 0x0A"

text \<open>
  \<^verbatim>\<open>str.replace(/c/g, r)\<close> for a pattern that is one character and a replacement
  text \<open>r\<close> without \<^verbatim>\<open>$\<close>: every occurrence of the character becomes \<open>r\<close>.
\<close>

fun replace_all :: "char \<Rightarrow> string \<Rightarrow> string \<Rightarrow> string" where
  "replace_all c r [] = []"
| "replace_all c r (x # xs) = (if x = c then r @ replace_all c r xs else x # replace_all c r xs)"

text \<open>Truthiness of a string value that may be \<^verbatim>\<open>undefined\<close>.\<close>

fun truthy :: "string option \<Rightarrow> bool" where
  "truthy None = False"
| "truthy (Some s) = (s \<noteq> [])"

subsection \<open>escapeForAppleScript\<close>

text \<open>
  \<^verbatim>\<open>return str.replace(/\\/g, "\\\\").replace(/"/g, '\\"');\<close>
  The first pass doubles each backslash, the second pass puts a backslash before each
  double quote.
\<close>

definition escapeForAppleScript :: "string \<Rightarrow> string" where
  "escapeForAppleScript str = replace_all dq [bs, dq] (replace_all bs [bs, bs] str)"

text \<open>
  How the script language reads a double-quoted literal, from the character after the
  opening quote: the literal ends at the first quote that no backslash precedes; a
  backslash joins the next character into one escape (\<^verbatim>\<open>\"\<close>, \<^verbatim>\<open>\\\<close>, \<^verbatim>\<open>\n\<close>,
  \<^verbatim>\<open>\r\<close>, \<^verbatim>\<open>\t\<close>); any other escape, or the end of the text before the closing
  quote, is a syntax error. The result is the text the literal denotes and the script
  text after the closing quote. This reader is not code of the server: it says what it
  means for a literal to end early.
\<close>

fun unescape_char :: "char \<Rightarrow> char option" where
  "unescape_char c =
     (if c = dq then Some dq
      else if c = bs then Some bs
      else if c = CHR ''n'' then Some nl
      else if c = CHR ''r'' then Some (CHR 0x0D)
      else if c = CHR ''t'' then Some (CHR 0x09)
      else None)"

fun quoted_literal :: "string \<Rightarrow> (string \<times> string) option" where
  "quoted_literal [] = None"
| "quoted_literal (c # cs) =
     (if c = dq then Some ([], cs)
      else if c = bs then
        (case cs of
           [] \<Rightarrow> None
         | d # ds \<Rightarrow>
             (case unescape_char d of
                None \<Rightarrow> None
              | Some u \<Rightarrow>
                  (case quoted_literal ds of
                     None \<Rightarrow> None
                   | Some (body, rest) \<Rightarrow> Some (u # body, rest))))
      else
        (case quoted_literal cs of
           None \<Rightarrow> None
         | Some (body, rest) \<Rightarrow> Some (c # body, rest)))"

subsection \<open>Numbers and their text\<close>

text \<open>
  The numbers of this program are calendar fields, list indices and alarm offsets:
  integers, and \<^verbatim>\<open>NaN\<close> for a field of an invalid date. Fractions and
  infinities are outside the model.
\<close>

datatype number = NaN | Num int

fun add :: "number \<Rightarrow> number \<Rightarrow> number" where
  "add (Num a) (Num b) = Num (a + b)"
| "add _ _ = NaN"

fun decimal :: "nat \<Rightarrow> string" where
  "decimal n =
     (if n < 10 then [char_of (48 + n)]
      else decimal (n div 10) @ [char_of (48 + n mod 10)])"

declare decimal.simps [simp del]

text \<open>\<^verbatim>\<open>String(x)\<close>, \<^verbatim>\<open>x.toString()\<close> and \<^verbatim>\<open>${x}\<close> for a number.\<close>

fun toString :: "number \<Rightarrow> string" where
  "toString NaN = ''NaN''"
| "toString (Num i) = (if i < 0 then CHR ''-'' # decimal (nat (- i)) else decimal (nat i))"

text \<open>\<^verbatim>\<open>s.padStart(n, c)\<close> for a one-character filler.\<close>

definition padStart :: "nat \<Rightarrow> char \<Rightarrow> string \<Rightarrow> string" where
  "padStart n c s = replicate (n - length s) c @ s"

text \<open>
  \<^verbatim>\<open>s.trim()\<close> removes white space and line terminators at both ends. Of these,
  the code units below 256 are tab, line feed, vertical tab, form feed, carriage return,
  space and no-break space.
\<close>

definition is_space :: "char \<Rightarrow> bool" where
  "is_space c = (c \<in> set [CHR 0x09, CHR 0x0A, CHR 0x0B, CHR 0x0C, CHR 0x0D, CHR 0x20, CHR 0xA0])"

definition trim :: "string \<Rightarrow> string" where
  "trim s = rev (dropWhile is_space (rev (dropWhile is_space s)))"

text \<open>\<^verbatim>\<open>xs.join(sep)\<close> for an array of strings.\<close>

fun join :: "string \<Rightarrow> string list \<Rightarrow> string" where
  "join sep [] = []"
| "join sep [x] = x"
| "join sep (x # y # ys) = x @ sep @ join sep (y # ys)"

text \<open>
  \<^verbatim>\<open>s.split(sep)\<close> for a string separator: the text is cut at each occurrence of
  the separator, found from left to right without overlap; \<open>cur\<close> holds, reversed, the
  characters of the piece being read. An empty separator cuts between all code units.
\<close>

function split_from :: "string \<Rightarrow> string \<Rightarrow> string \<Rightarrow> string list" where
  "split_from sep cur [] = [rev cur]"
| "split_from sep cur (c # cs) =
     (if sep \<noteq> [] \<and> take (length sep) (c # cs) = sep
      then rev cur # split_from sep [] (drop (length sep) (c # cs))
      else split_from sep (c # cur) cs)"
  by pat_completeness auto
termination
  by (relation "measure (\<lambda>(sep, cur, s). length s)") auto

definition split :: "string \<Rightarrow> string \<Rightarrow> string list" where
  "split s sep = (if sep = [] then map (\<lambda>c. [c]) s else split_from sep [] s)"

text \<open>\<^verbatim>\<open>a || b\<close> for a string \<open>a\<close> that may be \<^verbatim>\<open>undefined\<close> and a string \<open>b\<close>.\<close>

fun or_else :: "string option \<Rightarrow> string \<Rightarrow> string" where
  "or_else None d = d"
| "or_else (Some s) d = (if s = [] then d else s)"

text \<open>A source line of a template literal: the text and its line feed.\<close>

definition ln :: "string \<Rightarrow> string" where
  "ln s = s @ [nl]"

subsection \<open>Dates\<close>

text \<open>
  \<^verbatim>\<open>new Date(isoDate)\<close> is the runtime's: it gives an invalid date or an instant,
  read through the local-time getters. The parsing is a parameter of the model
  (\<open>parseDate\<close> below); an instant is the six fields the getters return.
\<close>

record instant =
  dayOfMonth :: nat
  monthIndex :: nat
  fullYear :: int
  hourOfDay :: nat
  minuteOfHour :: nat
  secondOfMinute :: nat

datatype Date = Invalid_Date | Valid_Date instant

fun getDate :: "Date \<Rightarrow> number" where
  "getDate Invalid_Date = NaN"
| "getDate (Valid_Date t) = Num (int (dayOfMonth t))"

fun getMonth :: "Date \<Rightarrow> number" where
  "getMonth Invalid_Date = NaN"
| "getMonth (Valid_Date t) = Num (int (monthIndex t))"

fun getFullYear :: "Date \<Rightarrow> number" where
  "getFullYear Invalid_Date = NaN"
| "getFullYear (Valid_Date t) = Num (fullYear t)"

fun getHours :: "Date \<Rightarrow> number" where
  "getHours Invalid_Date = NaN"
| "getHours (Valid_Date t) = Num (int (hourOfDay t))"

fun getMinutes :: "Date \<Rightarrow> number" where
  "getMinutes Invalid_Date = NaN"
| "getMinutes (Valid_Date t) = Num (int (minuteOfHour t))"

fun getSeconds :: "Date \<Rightarrow> number" where
  "getSeconds Invalid_Date = NaN"
| "getSeconds (Valid_Date t) = Num (int (secondOfMinute t))"

subsection \<open>The runtime: subprocesses, dates, error texts\<close>

datatype ErrorCode = InternalError | MethodNotFound

text \<open>
  What a \<^verbatim>\<open>throw\<close> carries: an \<^verbatim>\<open>McpError\<close> with the code and text it was
  built from, another \<^verbatim>\<open>Error\<close> with its message, or a value that is no
  \<^verbatim>\<open>Error\<close>.
\<close>

datatype thrown = McpError ErrorCode string | Error string | NonError

text \<open>The two faults for which the engine itself throws a \<^verbatim>\<open>TypeError\<close> here.\<close>

datatype fault = ReadOfUndefined string | DestructureOfUndefined string

record exec_call =
  exec_file :: string
  exec_args :: "string list"
  exec_timeout :: nat

text \<open>
  The rejection of \<^verbatim>\<open>execFileAsync\<close>, read as
  \<^verbatim>\<open>{ stderr?: string; message?: string }\<close>.
\<close>

record exec_error =
  stderr :: "string option"
  message :: "string option"

datatype exec_result = Resolved string | Rejected exec_error

text \<open>
  \<open>execFileAsync\<close> answers a call with the standard output of a subprocess that exited
  with status zero within the time limit, or with a rejection. \<open>parseDate\<close> is
  \<^verbatim>\<open>new Date(s)\<close> for a string. \<open>typeErrorMessage\<close> is the text of the engine's
  \<^verbatim>\<open>TypeError\<close>.
\<close>

record runtime =
  execFileAsync :: "exec_call \<Rightarrow> exec_result"
  parseDate :: "string \<Rightarrow> Date"
  typeErrorMessage :: "fault \<Rightarrow> string"

text \<open>The subprocess calls made so far, oldest first.\<close>

type_synonym calls = "exec_call list"

fun new_Date :: "runtime \<Rightarrow> string option \<Rightarrow> Date" where
  "new_Date rt None = Invalid_Date"
| "new_Date rt (Some s) = parseDate rt s"

subsection \<open>formatDateForAppleScript\<close>

definition formatDateForAppleScript :: "runtime \<Rightarrow> string option \<Rightarrow> string" where
  "formatDateForAppleScript rt isoDate =
     (let date = new_Date rt isoDate;
          day = getDate date;
          month = add (getMonth date) (Num 1);
          year = getFullYear date;
          hours = getHours date;
          minutes = getMinutes date
      in toString day @ ''/'' @ toString month @ ''/'' @ toString year @ '' ''
         @ padStart 2 (CHR ''0'') (toString hours) @ '':''
         @ padStart 2 (CHR ''0'') (toString minutes) @ '':00'')"

subsection \<open>runAppleScript\<close>

definition launchScript :: "string \<Rightarrow> string" where
  \<open>launchScript script =
     ln [] @
     ln ''    tell application "Calendar"'' @
     ln ''      launch'' @
     ln ''    end tell'' @
     ln ''    delay 0.5'' @
     ln (''    '' @ script) @
     ''  ''\<close>

definition osascript :: "string \<Rightarrow> exec_call" where
  "osascript script =
     \<lparr>exec_file = ''osascript'', exec_args = [''-e'', launchScript script], exec_timeout = 30000\<rparr>"

definition failure_text :: "exec_error \<Rightarrow> string" where
  "failure_text execError =
     or_else (stderr execError) (or_else (message execError) ''AppleScript error'')"

definition runAppleScript :: "runtime \<Rightarrow> string \<Rightarrow> calls \<Rightarrow> (thrown + string) \<times> calls" where
  "runAppleScript rt script log =
     (case execFileAsync rt (osascript script) of
        Resolved stdout \<Rightarrow> (Inr (trim stdout), log @ [osascript script])
      | Rejected execError \<Rightarrow>
          (Inl (McpError InternalError (failure_text execError)), log @ [osascript script]))"

subsection \<open>listCalendars\<close>

text \<open>
  The fields of \<^verbatim>\<open>CalendarInfo\<close> and \<^verbatim>\<open>EventInfo\<close> carry a prefix, since
  one theory cannot have two records with a field of the same name.
\<close>

record CalendarInfo =
  ci_name :: string
  ci_id :: string

record EventInfo =
  ei_id :: string
  ei_summary :: string
  ei_startDate :: string
  ei_endDate :: string
  ei_location :: string
  ei_description :: string
  ei_calendar :: string
  ei_isAllDay :: bool

text \<open>\<^verbatim>\<open>xs[i]\<close>: the element, or \<^verbatim>\<open>undefined\<close> past the end.\<close>

definition at_index :: "'a list \<Rightarrow> nat \<Rightarrow> 'a option" where
  "at_index xs i = (if i < length xs then Some (xs ! i) else None)"

definition listCalendars_script :: string where
  \<open>listCalendars_script =
     ln [] @
     ln ''    tell application "Calendar"'' @
     ln ''      set calNames to name of calendars'' @
     ln (''      set AppleScript'' @ [CHR 0x27] @ ''s text item delimiters to "~~~"'') @
     ln ''      return calNames as text'' @
     ln ''    end tell'' @
     ''  ''\<close>

definition parseCalendars :: "string \<Rightarrow> CalendarInfo list" where
  "parseCalendars result =
     map (\<lambda>(index, name). \<lparr>ci_name = trim name, ci_id = toString (Num (int index))\<rparr>)
       (enumerate 0 (split result ''~~~''))"

definition listCalendars :: "runtime \<Rightarrow> calls \<Rightarrow> (thrown + CalendarInfo list) \<times> calls" where
  "listCalendars rt log =
     (case runAppleScript rt listCalendars_script log of
        (Inl e, log') \<Rightarrow> (Inl e, log')
      | (Inr result, log') \<Rightarrow>
          if result = [] then (Inr [], log') else (Inr (parseCalendars result), log'))"

subsection \<open>listEvents\<close>

definition calendarPart :: "string option \<Rightarrow> string" where
  \<open>calendarPart calendarName =
     (case calendarName of
        None \<Rightarrow> ''set cals to calendars''
      | Some n \<Rightarrow>
          if n \<noteq> [] then ''set cals to {calendar "'' @ n @ ''"}''
          else ''set cals to calendars'')\<close>

definition listEvents_script :: "runtime \<Rightarrow> string option \<Rightarrow> string option \<Rightarrow> string option \<Rightarrow> string" where
  \<open>listEvents_script rt startDate endDate calendarName =
     ln [] @
     ln ''    tell application "Calendar"'' @
     ln (''      set startD to date "'' @ formatDateForAppleScript rt startDate @ ''"'') @
     ln (''      set endD to date "'' @ formatDateForAppleScript rt endDate @ ''"'') @
     ln ''      set eventList to {}'' @
     ln (''      '' @ calendarPart calendarName) @
     ln [] @
     ln ''      repeat with c in cals'' @
     ln ''        try'' @
     ln ''          set calEvents to (every event of c whose start date >= startD and start date <= endD)'' @
     ln ''          repeat with e in calEvents'' @
     ln ''            set eventSummary to summary of e'' @
     ln ''            set eventStart to start date of e'' @
     ln ''            set eventEnd to end date of e'' @
     ln ''            set eventAllDay to allday event of e'' @
     ln ''            set calName to name of c'' @
     ln ''            set eventLoc to ""'' @
     ln ''            try'' @
     ln ''              set eventLoc to location of e'' @
     ln ''            on error'' @
     ln ''              set eventLoc to ""'' @
     ln ''            end try'' @
     ln [] @
     ln ''            set eventInfo to eventSummary & "|||" & (eventStart as string) & "|||" & (eventEnd as string) & "|||" & eventLoc & "|||" & calName & "|||" & eventAllDay'' @
     ln ''            set end of eventList to eventInfo'' @
     ln ''          end repeat'' @
     ln ''        end try'' @
     ln ''      end repeat'' @
     ln [] @
     ln (''      set AppleScript'' @ [CHR 0x27] @ ''s text item delimiters to "~~~"'') @
     ln ''      return eventList as text'' @
     ln ''    end tell'' @
     ''  ''\<close>

text \<open>
  The reply parser of lines 119 to 131: the records of the reply, each cut into its
  fields.
\<close>

definition parseEvents :: "string \<Rightarrow> EventInfo list" where
  "parseEvents result =
     map (\<lambda>(index, item).
            let parts = split item ''|||''
            in \<lparr>ei_id = toString (Num (int index)),
                ei_summary = or_else (at_index parts 0) [],
                ei_startDate = or_else (at_index parts 1) [],
                ei_endDate = or_else (at_index parts 2) [],
                ei_location = or_else (at_index parts 3) [],
                ei_description = [],
                ei_calendar = or_else (at_index parts 4) [],
                ei_isAllDay = (at_index parts 5 = Some ''true'')\<rparr>)
       (enumerate 0 (split result ''~~~''))"

definition listEvents ::
  "runtime \<Rightarrow> string option \<Rightarrow> string option \<Rightarrow> string option \<Rightarrow> calls
     \<Rightarrow> (thrown + EventInfo list) \<times> calls" where
  "listEvents rt startDate endDate calendarName log =
     (case runAppleScript rt (listEvents_script rt startDate endDate calendarName) log of
        (Inl e, log') \<Rightarrow> (Inl e, log')
      | (Inr result, log') \<Rightarrow>
          if result = [] then (Inr [], log') else (Inr (parseEvents result), log'))"

subsection \<open>createEvent\<close>

definition alarmStatement :: "number \<Rightarrow> string" where
  "alarmStatement minutes =
     ''make new display alarm at end of display alarms of newEvent with properties {trigger interval:''
       @ toString minutes @ ''}''"

definition alarmCommands :: "number list option \<Rightarrow> string" where
  "alarmCommands alarms =
     (case alarms of
        None \<Rightarrow> []
      | Some ms \<Rightarrow>
          if length ms > 0
          then [nl] @ ''        '' @ join ([nl] @ ''        '') (map alarmStatement ms)
          else [])"

definition createEvent_script ::
  "runtime \<Rightarrow> string \<Rightarrow> string option \<Rightarrow> string option \<Rightarrow> string option \<Rightarrow> string option
     \<Rightarrow> string option \<Rightarrow> bool option \<Rightarrow> number list option \<Rightarrow> string" where
  \<open>createEvent_script rt title startDate endDate calendarName location description isAllDay alarms =
     (let targetCalendar = or_else calendarName ''Kalender'';
          locationProp =
            (case location of
               None \<Rightarrow> []
             | Some l \<Rightarrow> if l \<noteq> [] then '', location:"'' @ escapeForAppleScript l @ ''"'' else []);
          descProp =
            (case description of
               None \<Rightarrow> []
             | Some d \<Rightarrow> if d \<noteq> [] then '', description:"'' @ escapeForAppleScript d @ ''"'' else []);
          allDayProp = (if isAllDay = Some True then '', allday event:true'' else [])
      in ln [] @
         ln ''    tell application "Calendar"'' @
         ln (''      tell calendar "'' @ escapeForAppleScript targetCalendar @ ''"'') @
         ln (''        set newEvent to make new event with properties {summary:"''
               @ escapeForAppleScript title
               @ ''", start date:date "'' @ formatDateForAppleScript rt startDate
               @ ''", end date:date "'' @ formatDateForAppleScript rt endDate @ ''"''
               @ allDayProp @ locationProp @ descProp @ ''}'' @ alarmCommands alarms) @
         ln ''        return "created"'' @
         ln ''      end tell'' @
         ln ''    end tell'' @
         ''  '')\<close>

text \<open>
  The title is a string by its declared type; when the caller passes
  \<^verbatim>\<open>undefined\<close>, \<^verbatim>\<open>str.replace\<close> throws while the script is built, before
  any subprocess starts.
\<close>

definition createEvent ::
  "runtime \<Rightarrow> string option \<Rightarrow> string option \<Rightarrow> string option \<Rightarrow> string option \<Rightarrow> string option
     \<Rightarrow> string option \<Rightarrow> bool option \<Rightarrow> number list option \<Rightarrow> calls
     \<Rightarrow> (thrown + string) \<times> calls" where
  "createEvent rt title startDate endDate calendarName location description isAllDay alarms log =
     (case title of
        None \<Rightarrow> (Inl (Error (typeErrorMessage rt (ReadOfUndefined ''replace''))), log)
      | Some t \<Rightarrow>
          (case runAppleScript rt
                  (createEvent_script rt t startDate endDate calendarName location description
                     isAllDay alarms) log of
             (Inl e, log') \<Rightarrow> (Inl e, log')
           | (Inr _, log') \<Rightarrow> (Inr t, log')))"

subsection \<open>updateEvent and deleteEvent\<close>

definition setProperties ::
  "runtime \<Rightarrow> string option \<Rightarrow> string option \<Rightarrow> string option \<Rightarrow> string option \<Rightarrow> string option
     \<Rightarrow> string list" where
  \<open>setProperties rt newTitle startDate endDate location description =
     (case newTitle of
        None \<Rightarrow> []
      | Some t \<Rightarrow>
          if t \<noteq> [] then [''set summary of targetEvent to "'' @ escapeForAppleScript t @ ''"'']
          else [])
     @ (if truthy startDate
        then [''set start date of targetEvent to date "''
                @ formatDateForAppleScript rt startDate @ ''"'']
        else [])
     @ (if truthy endDate
        then [''set end date of targetEvent to date "''
                @ formatDateForAppleScript rt endDate @ ''"'']
        else [])
     @ (case location of
          None \<Rightarrow> []
        | Some l \<Rightarrow> [''set location of targetEvent to "'' @ escapeForAppleScript l @ ''"''])
     @ (case description of
          None \<Rightarrow> []
        | Some d \<Rightarrow> [''set description of targetEvent to "'' @ escapeForAppleScript d @ ''"''])\<close>

definition updateEvent_script :: "string \<Rightarrow> string \<Rightarrow> string list \<Rightarrow> string" where
  \<open>updateEvent_script eventSummary calendarName props =
     ln [] @
     ln ''    tell application "Calendar"'' @
     ln (''      tell calendar "'' @ escapeForAppleScript calendarName @ ''"'') @
     ln (''        set targetEvent to (first event whose summary is "''
           @ escapeForAppleScript eventSummary @ ''")'') @
     ln (''        '' @ join ([nl] @ ''        '') props) @
     ln ''        return "success"'' @
     ln ''      end tell'' @
     ln ''    end tell'' @
     ''  ''\<close>

definition updateEvent ::
  "runtime \<Rightarrow> string option \<Rightarrow> string option \<Rightarrow> string option \<Rightarrow> string option \<Rightarrow> string option
     \<Rightarrow> string option \<Rightarrow> string option \<Rightarrow> calls \<Rightarrow> (thrown + unit) \<times> calls" where
  "updateEvent rt eventSummary calendarName newTitle startDate endDate location description log =
     (let props = setProperties rt newTitle startDate endDate location description
      in if length props = 0 then (Inr (), log)
         else
           (case calendarName of
              None \<Rightarrow> (Inl (Error (typeErrorMessage rt (ReadOfUndefined ''replace''))), log)
            | Some cn \<Rightarrow>
                (case eventSummary of
                   None \<Rightarrow> (Inl (Error (typeErrorMessage rt (ReadOfUndefined ''replace''))), log)
                 | Some es \<Rightarrow>
                     (case runAppleScript rt (updateEvent_script es cn props) log of
                        (Inl e, log') \<Rightarrow> (Inl e, log')
                      | (Inr _, log') \<Rightarrow> (Inr (), log')))))"

definition deleteEvent_script :: "string \<Rightarrow> string \<Rightarrow> string" where
  \<open>deleteEvent_script eventSummary calendarName =
     ln [] @
     ln ''    tell application "Calendar"'' @
     ln (''      tell calendar "'' @ escapeForAppleScript calendarName @ ''"'') @
     ln (''        set targetEvent to (first event whose summary is "''
           @ escapeForAppleScript eventSummary @ ''")'') @
     ln ''        delete targetEvent'' @
     ln ''        return "success"'' @
     ln ''      end tell'' @
     ln ''    end tell'' @
     ''  ''\<close>

definition deleteEvent ::
  "runtime \<Rightarrow> string option \<Rightarrow> string option \<Rightarrow> calls \<Rightarrow> (thrown + unit) \<times> calls" where
  "deleteEvent rt eventSummary calendarName log =
     (case calendarName of
        None \<Rightarrow> (Inl (Error (typeErrorMessage rt (ReadOfUndefined ''replace''))), log)
      | Some cn \<Rightarrow>
          (case eventSummary of
             None \<Rightarrow> (Inl (Error (typeErrorMessage rt (ReadOfUndefined ''replace''))), log)
           | Some es \<Rightarrow>
               (case runAppleScript rt (deleteEvent_script es cn) log of
                  (Inl e, log') \<Rightarrow> (Inl e, log')
                | (Inr _, log') \<Rightarrow> (Inr (), log'))))"

subsection \<open>JSON text\<close>

text \<open>
  The values the handlers encode: strings, booleans, arrays and objects with their
  members in order. \<open>JSON_stringify v\<close> is \<^verbatim>\<open>JSON.stringify(v, null, 2)\<close>.
\<close>

datatype json = JString string | JBool bool | JArray "json list" | JObject "(string \<times> json) list"

definition hex_digit :: "nat \<Rightarrow> char" where
  "hex_digit n = (if n < 10 then char_of (48 + n) else char_of (87 + n))"

definition quoteJSON_char :: "char \<Rightarrow> string" where
  "quoteJSON_char c =
     (if c = CHR 0x08 then [bs, CHR ''b'']
      else if c = CHR 0x09 then [bs, CHR ''t'']
      else if c = CHR 0x0A then [bs, CHR ''n'']
      else if c = CHR 0x0C then [bs, CHR ''f'']
      else if c = CHR 0x0D then [bs, CHR ''r'']
      else if c = dq then [bs, dq]
      else if c = bs then [bs, bs]
      else if (of_char c :: nat) < 32
      then [bs, CHR ''u'', CHR ''0'', CHR ''0'',
            hex_digit (of_char c div 16), hex_digit (of_char c mod 16)]
      else [c])"

definition quoteJSON :: "string \<Rightarrow> string" where
  "quoteJSON s = dq # concat (map quoteJSON_char s) @ [dq]"

fun stringify :: "string \<Rightarrow> json \<Rightarrow> string" where
  "stringify indent (JString s) = quoteJSON s"
| "stringify indent (JBool b) = (if b then ''true'' else ''false'')"
| "stringify indent (JArray xs) =
     (if xs = [] then ''[]''
      else ''['' @ [nl] @ indent @ ''  ''
           @ join ('','' @ [nl] @ indent @ ''  '') (map (stringify (indent @ ''  '')) xs)
           @ [nl] @ indent @ '']'')"
| "stringify indent (JObject ms) =
     (if ms = [] then ''{}''
      else ''{'' @ [nl] @ indent @ ''  ''
           @ join ('','' @ [nl] @ indent @ ''  '')
               (map (\<lambda>(k, v). quoteJSON k @ '': '' @ stringify (indent @ ''  '') v) ms)
           @ [nl] @ indent @ ''}'')"

definition JSON_stringify :: "json \<Rightarrow> string" where
  "JSON_stringify v = stringify [] v"

definition json_of_CalendarInfo :: "CalendarInfo \<Rightarrow> json" where
  "json_of_CalendarInfo c = JObject [(''name'', JString (ci_name c)), (''id'', JString (ci_id c))]"

definition json_of_EventInfo :: "EventInfo \<Rightarrow> json" where
  "json_of_EventInfo e =
     JObject [(''id'', JString (ei_id e)),
              (''summary'', JString (ei_summary e)),
              (''startDate'', JString (ei_startDate e)),
              (''endDate'', JString (ei_endDate e)),
              (''location'', JString (ei_location e)),
              (''description'', JString (ei_description e)),
              (''calendar'', JString (ei_calendar e)),
              (''isAllDay'', JBool (ei_isAllDay e))]"

text \<open>A member whose value is \<^verbatim>\<open>undefined\<close> is left out of the text.\<close>

fun optional_member :: "string \<Rightarrow> string option \<Rightarrow> (string \<times> json) list" where
  "optional_member k None = []"
| "optional_member k (Some s) = [(k, JString s)]"

subsection \<open>The list of tools\<close>

record property_schema =
  prop_type :: string
  prop_items :: "string option"
  prop_description :: string

record input_schema =
  schema_type :: string
  properties :: "(string \<times> property_schema) list"
  required :: "string list"

record tool =
  tool_name :: string
  tool_description :: string
  inputSchema :: input_schema

definition string_property :: "string \<Rightarrow> property_schema" where
  "string_property d = \<lparr>prop_type = ''string'', prop_items = None, prop_description = d\<rparr>"

definition tools :: "tool list" where
  "tools =
   [\<lparr>tool_name = ''list_calendars'',
     tool_description =
       ''List all available calendars including iCloud, local, and subscribed calendars.'',
     inputSchema = \<lparr>schema_type = ''object'', properties = [], required = []\<rparr>\<rparr>,
    \<lparr>tool_name = ''list_events'',
     tool_description =
       ''List calendar events within a date range. Can filter by specific calendar.'',
     inputSchema =
       \<lparr>schema_type = ''object'',
        properties =
          [(''startDate'',
            string_property ''Start date in ISO8601 format (e.g., 2024-01-15T00:00:00Z)''),
           (''endDate'',
            string_property ''End date in ISO8601 format (e.g., 2024-01-31T23:59:59Z)''),
           (''calendarName'',
            string_property
              ''Optional: Filter events by calendar name. If not provided, returns events from all calendars.'')],
        required = [''startDate'', ''endDate'']\<rparr>\<rparr>,
    \<lparr>tool_name = ''create_event'',
     tool_description =
       ''Create a new calendar event. Specify title, start/end dates, and optionally calendar, location, and description.'',
     inputSchema =
       \<lparr>schema_type = ''object'',
        properties =
          [(''title'', string_property ''Event title''),
           (''startDate'',
            string_property ''Start date in ISO8601 format (e.g., 2024-01-15T10:00:00Z)''),
           (''endDate'',
            string_property ''End date in ISO8601 format (e.g., 2024-01-15T11:00:00Z)''),
           (''calendarName'',
            string_property
              ''Optional: Calendar name to create event in. Uses default calendar if not specified.''),
           (''isAllDay'',
            \<lparr>prop_type = ''boolean'', prop_items = None,
             prop_description = ''Optional: Whether this is an all-day event''\<rparr>),
           (''location'', string_property ''Optional: Event location''),
           (''description'', string_property ''Optional: Event description''),
           (''alarms'',
            \<lparr>prop_type = ''array'', prop_items = Some ''number'',
             prop_description =
               ''Optional: Array of alarm times in minutes before the event. Negative values for before event (e.g., -15 for 15 minutes before, -60 for 1 hour before). Use -1440 for 1 day before.''\<rparr>)],
        required = [''title'', ''startDate'', ''endDate'']\<rparr>\<rparr>,
    \<lparr>tool_name = ''update_event'',
     tool_description =
       ''Update an existing calendar event by its summary/title and calendar name. Only specified fields will be updated.'',
     inputSchema =
       \<lparr>schema_type = ''object'',
        properties =
          [(''eventSummary'', string_property ''The current event title/summary to find''),
           (''calendarName'', string_property ''The calendar name where the event is located''),
           (''newTitle'', string_property ''Optional: New event title''),
           (''startDate'', string_property ''Optional: New start date in ISO8601 format''),
           (''endDate'', string_property ''Optional: New end date in ISO8601 format''),
           (''location'', string_property ''Optional: New event location''),
           (''description'', string_property ''Optional: New event description'')],
        required = [''eventSummary'', ''calendarName'']\<rparr>\<rparr>,
    \<lparr>tool_name = ''delete_event'',
     tool_description = ''Delete a calendar event by its summary/title and calendar name.'',
     inputSchema =
       \<lparr>schema_type = ''object'',
        properties =
          [(''eventSummary'', string_property ''The event title/summary to delete''),
           (''calendarName'', string_property ''The calendar name where the event is located'')],
        required = [''eventSummary'', ''calendarName'']\<rparr>\<rparr>]"

text \<open>
  The handler of \<^verbatim>\<open>ListToolsRequestSchema\<close> takes no argument and reads nothing: it
  answers with the list and leaves the record of subprocess calls as it was.
\<close>

definition listToolsHandler :: "calls \<Rightarrow> tool list \<times> calls" where
  "listToolsHandler log = (tools, log)"

text \<open>The arguments of a tool that its schema does not require.\<close>

definition optional_arguments :: "tool \<Rightarrow> string list" where
  "optional_arguments t =
     filter (\<lambda>k. k \<notin> set (required (inputSchema t))) (map fst (properties (inputSchema t)))"

subsection \<open>The handler of tool calls\<close>

text \<open>
  The argument object of a request, with the fields the handler reads and the types
  its casts declare; a field that is absent is \<open>None\<close>. The request may come without
  an argument object.
\<close>

record tool_args =
  arg_title :: "string option"
  arg_startDate :: "string option"
  arg_endDate :: "string option"
  arg_calendarName :: "string option"
  arg_location :: "string option"
  arg_description :: "string option"
  arg_isAllDay :: "bool option"
  arg_alarms :: "number list option"
  arg_eventSummary :: "string option"
  arg_newTitle :: "string option"

record call_request =
  req_name :: string
  req_arguments :: "tool_args option"

record content_item =
  item_type :: string
  item_text :: string

record tool_result =
  content :: "content_item list"

definition text_result :: "json \<Rightarrow> tool_result" where
  "text_result v = \<lparr>content = [\<lparr>item_type = ''text'', item_text = JSON_stringify v\<rparr>]\<rparr>"

text \<open>The \<^verbatim>\<open>try\<close> block: the \<^verbatim>\<open>switch\<close> on the tool name.\<close>

definition switch_name :: "runtime \<Rightarrow> call_request \<Rightarrow> calls \<Rightarrow> (thrown + tool_result) \<times> calls" where
  "switch_name rt request log =
     (let name = req_name request; args = req_arguments request
      in if name = ''list_calendars'' then
           (case listCalendars rt log of
              (Inl e, log') \<Rightarrow> (Inl e, log')
            | (Inr calendars, log') \<Rightarrow>
                (Inr (text_result (JArray (map json_of_CalendarInfo calendars))), log'))
         else if name = ''list_events'' then
           (case args of
              None \<Rightarrow>
                (Inl (Error (typeErrorMessage rt (DestructureOfUndefined ''startDate''))), log)
            | Some a \<Rightarrow>
                (case listEvents rt (arg_startDate a) (arg_endDate a) (arg_calendarName a) log of
                   (Inl e, log') \<Rightarrow> (Inl e, log')
                 | (Inr events, log') \<Rightarrow>
                     (Inr (text_result (JArray (map json_of_EventInfo events))), log')))
         else if name = ''create_event'' then
           (case args of
              None \<Rightarrow> (Inl (Error (typeErrorMessage rt (DestructureOfUndefined ''title''))), log)
            | Some a \<Rightarrow>
                (case createEvent rt (arg_title a) (arg_startDate a) (arg_endDate a)
                        (arg_calendarName a) (arg_location a) (arg_description a)
                        (arg_isAllDay a) (arg_alarms a) log of
                   (Inl e, log') \<Rightarrow> (Inl e, log')
                 | (Inr eventId, log') \<Rightarrow>
                     (Inr (text_result
                             (JObject [(''success'', JBool True),
                                       (''message'', JString ''Event created''),
                                       (''eventId'', JString eventId)])), log')))
         else if name = ''update_event'' then
           (case args of
              None \<Rightarrow>
                (Inl (Error (typeErrorMessage rt (DestructureOfUndefined ''eventSummary''))), log)
            | Some a \<Rightarrow>
                (case updateEvent rt (arg_eventSummary a) (arg_calendarName a) (arg_newTitle a)
                        (arg_startDate a) (arg_endDate a) (arg_location a) (arg_description a)
                        log of
                   (Inl e, log') \<Rightarrow> (Inl e, log')
                 | (Inr _, log') \<Rightarrow>
                     (Inr (text_result
                             (JObject ([(''success'', JBool True),
                                        (''message'', JString ''Event updated'')]
                                       @ optional_member ''eventSummary'' (arg_eventSummary a)))),
                      log')))
         else if name = ''delete_event'' then
           (case args of
              None \<Rightarrow>
                (Inl (Error (typeErrorMessage rt (DestructureOfUndefined ''eventSummary''))), log)
            | Some a \<Rightarrow>
                (case deleteEvent rt (arg_eventSummary a) (arg_calendarName a) log of
                   (Inl e, log') \<Rightarrow> (Inl e, log')
                 | (Inr _, log') \<Rightarrow>
                     (Inr (text_result
                             (JObject ([(''success'', JBool True),
                                        (''message'', JString ''Event deleted'')]
                                       @ optional_member ''eventSummary'' (arg_eventSummary a)))),
                      log')))
         else (Inl (McpError MethodNotFound (''Unknown tool: '' @ name)), log))"

text \<open>
  The \<^verbatim>\<open>catch\<close> block: an \<^verbatim>\<open>McpError\<close> is thrown again as it is, any other
  \<^verbatim>\<open>Error\<close> becomes an internal error with its message, anything else an internal
  error with a fixed text.
\<close>

fun catch_error :: "thrown \<Rightarrow> thrown" where
  "catch_error (McpError code text) = McpError code text"
| "catch_error (Error errorMessage) = McpError InternalError errorMessage"
| "catch_error NonError = McpError InternalError ''Unknown error''"

definition callToolHandler :: "runtime \<Rightarrow> call_request \<Rightarrow> calls \<Rightarrow> (thrown + tool_result) \<times> calls" where
  "callToolHandler rt request log =
     (case switch_name rt request log of
        (Inl error, log') \<Rightarrow> (Inl (catch_error error), log')
      | (Inr result, log') \<Rightarrow> (Inr result, log'))"

subsection \<open>A runtime for examples\<close>

text \<open>
  A runtime in which the interpreter answers every script with \<^verbatim>\<open>created\<close> and a
  line feed, and in which three date strings of March 1st, 2024 are instants.
\<close>

definition example_runtime :: runtime where
  "example_runtime =
     \<lparr>execFileAsync = (\<lambda>c. Resolved (''created'' @ [nl])),
      parseDate =
        (\<lambda>s. if s = ''2024-03-01T09:00:00''
             then Valid_Date \<lparr>dayOfMonth = 1, monthIndex = 2, fullYear = 2024, hourOfDay = 9,
                                minuteOfHour = 0, secondOfMinute = 0\<rparr>
             else if s = ''2024-03-01T09:15:00''
             then Valid_Date \<lparr>dayOfMonth = 1, monthIndex = 2, fullYear = 2024, hourOfDay = 9,
                                minuteOfHour = 15, secondOfMinute = 0\<rparr>
             else if s = ''2024-03-01T09:00:30''
             then Valid_Date \<lparr>dayOfMonth = 1, monthIndex = 2, fullYear = 2024, hourOfDay = 9,
                                minuteOfHour = 0, secondOfMinute = 30\<rparr>
             else Invalid_Date),
      typeErrorMessage = (\<lambda>f. ''TypeError'')\<rparr>"

text \<open>
  The rendering that the specification describes, day/month/year hour:minute:second:
  the fields of formatDateForAppleScript followed by the second of the instant, padded
  like the minute. It is not code of the server.
\<close>

definition rendering_with_seconds :: "instant \<Rightarrow> string" where
  "rendering_with_seconds t =
     decimal (dayOfMonth t) @ ''/'' @ decimal (monthIndex t + 1) @ ''/''
     @ toString (Num (fullYear t)) @ '' ''
     @ padStart 2 (CHR ''0'') (decimal (hourOfDay t)) @ '':''
     @ padStart 2 (CHR ''0'') (decimal (minuteOfHour t)) @ '':''
     @ padStart 2 (CHR ''0'') (decimal (secondOfMinute t))"

text \<open>The create_event request of the scenario in the specification.\<close>

definition standup_request :: call_request where
  "standup_request =
     \<lparr>req_name = ''create_event'',
      req_arguments =
        Some \<lparr>arg_title = Some ''Standup'', arg_startDate = Some ''2024-03-01T09:00:00'',
              arg_endDate = Some ''2024-03-01T09:15:00'', arg_calendarName = Some ''Work'',
              arg_location = None, arg_description = None, arg_isAllDay = None,
              arg_alarms = None, arg_eventSummary = None, arg_newTitle = None\<rparr>\<rparr>"

subsection \<open>Properties of escapeForAppleScript\<close>

lemma dq_neq_bs [simp]: "dq \<noteq> bs" "bs \<noteq> dq"
  by (simp_all add: dq_def bs_def)

lemma escape_Nil [simp]: "escapeForAppleScript [] = []"
  by (simp add: escapeForAppleScript_def)

lemma escape_Cons:
  "escapeForAppleScript (c # s) =
     (if c = bs then [bs, bs] else if c = dq then [bs, dq] else [c]) @ escapeForAppleScript s"
  by (simp add: escapeForAppleScript_def)

lemma escape_single_pass:
  "escapeForAppleScript s =
     concat (map (\<lambda>c. if c = bs then [bs, bs] else if c = dq then [bs, dq] else [c]) s)"
  by (induction s) (simp_all add: escape_Cons)

lemma quoted_literal_escape:
  "quoted_literal (escapeForAppleScript s @ dq # rest) = Some (s, rest)"
proof (induction s)
  case Nil
  show ?case by simp
next
  case (Cons c s)
  show ?case
  proof (cases "c = bs \<or> c = dq")
    case True
    then show ?thesis
      using Cons.IH by (auto simp add: escape_Cons)
  next
    case False
    then show ?thesis
      using Cons.IH by (simp add: escape_Cons)
  qed
qed

text \<open>
  C2. escapeForAppleScript rewrites each backslash to two backslashes and each double
  quote to backslash-quote and copies every other character; placed between double
  quotes and followed by any script text, the escaped value is read back as one literal
  that denotes the original string and ends at the closing quote that was written
  after it, not earlier.
\<close>

theorem escapeForAppleScript_literal_safe:
  "escapeForAppleScript s =
     concat (map (\<lambda>c. if c = bs then [bs, bs] else if c = dq then [bs, dq] else [c]) s)
   \<and> quoted_literal (escapeForAppleScript s @ dq # rest) = Some (s, rest)"
  using escape_single_pass [of s] quoted_literal_escape [of s rest] by simp

text \<open>
  Where the server writes the escaped values: the scripts of createEvent and the
  statements of updateEvent put each of them between two double quotes, so the
  literal that starts there is read as above.
\<close>

lemma createEvent_script_title:
  \<open>\<exists>pre post.
      createEvent_script rt title startDate endDate calendarName location description isAllDay
        alarms = pre @ ''{summary:'' @ dq # escapeForAppleScript title @ dq # post\<close>
proof -
  define pre where
    \<open>pre = ln [] @ ln ''    tell application "Calendar"'' @
       ln (''      tell calendar "'' @ escapeForAppleScript (or_else calendarName ''Kalender'') @ ''"'') @
       ''        set newEvent to make new event with properties ''\<close>
  obtain post where
    "createEvent_script rt title startDate endDate calendarName location description isAllDay
       alarms = pre @ ''{summary:'' @ dq # escapeForAppleScript title @ dq # post"
    by (simp add: createEvent_script_def Let_def ln_def dq_def pre_def)
  then show ?thesis
    by blast
qed

lemma createEvent_script_location:
  assumes "location = Some l" and "l \<noteq> []"
  shows \<open>\<exists>pre post.
      createEvent_script rt title startDate endDate calendarName location description isAllDay
        alarms = pre @ '', location:'' @ dq # escapeForAppleScript l @ dq # post\<close>
proof -
  define pre where
    \<open>pre = ln [] @ ln ''    tell application "Calendar"'' @
       ln (''      tell calendar "'' @ escapeForAppleScript (or_else calendarName ''Kalender'') @ ''"'') @
       ''        set newEvent to make new event with properties {summary:"''
               @ escapeForAppleScript title
               @ ''", start date:date "'' @ formatDateForAppleScript rt startDate
               @ ''", end date:date "'' @ formatDateForAppleScript rt endDate @ ''"''
               @ (if isAllDay = Some True then '', allday event:true'' else [])\<close>
  obtain post where
    "createEvent_script rt title startDate endDate calendarName location description isAllDay
       alarms = pre @ '', location:'' @ dq # escapeForAppleScript l @ dq # post"
    using assms by (simp add: createEvent_script_def Let_def ln_def dq_def pre_def)
  then show ?thesis
    by blast
qed

lemma createEvent_script_description:
  assumes "description = Some d" and "d \<noteq> []"
  shows \<open>\<exists>pre post.
      createEvent_script rt title startDate endDate calendarName location description isAllDay
        alarms = pre @ '', description:'' @ dq # escapeForAppleScript d @ dq # post\<close>
proof -
  define pre where
    \<open>pre = ln [] @ ln ''    tell application "Calendar"'' @
       ln (''      tell calendar "'' @ escapeForAppleScript (or_else calendarName ''Kalender'') @ ''"'') @
       ''        set newEvent to make new event with properties {summary:"''
               @ escapeForAppleScript title
               @ ''", start date:date "'' @ formatDateForAppleScript rt startDate
               @ ''", end date:date "'' @ formatDateForAppleScript rt endDate @ ''"''
               @ (if isAllDay = Some True then '', allday event:true'' else [])
               @ (case location of
                    None \<Rightarrow> []
                  | Some l \<Rightarrow> if l \<noteq> [] then '', location:"'' @ escapeForAppleScript l @ ''"'' else [])\<close>
  obtain post where
    "createEvent_script rt title startDate endDate calendarName location description isAllDay
       alarms = pre @ '', description:'' @ dq # escapeForAppleScript d @ dq # post"
    using assms by (simp add: createEvent_script_def Let_def ln_def dq_def pre_def)
  then show ?thesis
    by blast
qed

lemma setProperties_quoted:
  \<open>newTitle = Some t \<Longrightarrow> t \<noteq> [] \<Longrightarrow>
     ''set summary of targetEvent to '' @ dq # escapeForAppleScript t @ [dq]
       \<in> set (setProperties rt newTitle startDate endDate location description)\<close>
  \<open>location = Some l \<Longrightarrow>
     ''set location of targetEvent to '' @ dq # escapeForAppleScript l @ [dq]
       \<in> set (setProperties rt newTitle startDate endDate location description)\<close>
  \<open>description = Some d \<Longrightarrow>
     ''set description of targetEvent to '' @ dq # escapeForAppleScript d @ [dq]
       \<in> set (setProperties rt newTitle startDate endDate location description)\<close>
  by (simp_all add: setProperties_def dq_def)

subsection \<open>The handler of tool calls: unregistered names\<close>

lemma switch_name_unregistered:
  assumes "req_name request \<noteq> ''list_calendars''" "req_name request \<noteq> ''list_events''"
    "req_name request \<noteq> ''create_event''" "req_name request \<noteq> ''update_event''"
    "req_name request \<noteq> ''delete_event''"
  shows "switch_name rt request log =
           (Inl (McpError MethodNotFound (''Unknown tool: '' @ req_name request)), log)"
  using assms unfolding switch_name_def Let_def by (simp only: if_False)

text \<open>
  C1. A request whose name is none of the five registered tools is answered with a
  method-not-found error that names the tool, whatever its arguments are (also when it
  has none); no internal error is raised and no subprocess is started.
\<close>

theorem callTool_unregistered_name:
  assumes "req_name request \<notin>
             {''list_calendars'', ''list_events'', ''create_event'', ''update_event'', ''delete_event''}"
  shows "callToolHandler rt request log =
           (Inl (McpError MethodNotFound (''Unknown tool: '' @ req_name request)), log)"
proof -
  from assms have "switch_name rt request log =
      (Inl (McpError MethodNotFound (''Unknown tool: '' @ req_name request)), log)"
    by (intro switch_name_unregistered) simp_all
  then show ?thesis
    by (simp add: callToolHandler_def)
qed

theorem callTool_unregistered_name_witness:
  "''rename_event'' \<notin>
     {''list_calendars'', ''list_events'', ''create_event'', ''update_event'', ''delete_event''}
   \<and> callToolHandler example_runtime \<lparr>req_name = ''rename_event'', req_arguments = None\<rparr> [] =
       (Inl (McpError MethodNotFound ''Unknown tool: rename_event''), [])"
  using callTool_unregistered_name
          [of "\<lparr>req_name = ''rename_event'', req_arguments = None\<rparr>" example_runtime "[]"]
  by simp

subsection \<open>updateEvent: when the interpreter is called\<close>

lemma truthy_iff: "truthy v \<longleftrightarrow> v \<noteq> None \<and> v \<noteq> Some []"
  by (cases v) simp_all

lemma setProperties_empty_iff:
  "setProperties rt newTitle startDate endDate location description = [] \<longleftrightarrow>
     \<not> truthy newTitle \<and> \<not> truthy startDate \<and> \<not> truthy endDate
     \<and> location = None \<and> description = None"
  by (cases newTitle; cases location; cases description) (simp_all add: setProperties_def)

lemma snd_runAppleScript: "snd (runAppleScript rt script log) = log @ [osascript script]"
  by (simp add: runAppleScript_def split: exec_result.split)

lemma updateEvent_no_fields:
  "updateEvent rt eventSummary calendarName None None None None None log = (Inr (), log)"
  by (simp add: updateEvent_def setProperties_def)

lemma snd_updateEvent:
  "snd (updateEvent rt (Some eventSummary) (Some calendarName) newTitle startDate endDate
          location description log) =
     (if setProperties rt newTitle startDate endDate location description = [] then log
      else log @ [osascript (updateEvent_script eventSummary calendarName
                    (setProperties rt newTitle startDate endDate location description))])"
  using snd_runAppleScript [of rt "updateEvent_script eventSummary calendarName
          (setProperties rt newTitle startDate endDate location description)" log]
  by (auto simp add: updateEvent_def Let_def split: prod.split sum.split)

text \<open>
  C3. An update_event request that carries an event summary and a calendar name and
  none of newTitle, startDate, endDate, location and description starts no subprocess
  (the record of calls is unchanged) and is answered with the success result.
\<close>

theorem update_event_without_fields:
  "callToolHandler rt
     \<lparr>req_name = ''update_event'',
      req_arguments =
        Some \<lparr>arg_title = title, arg_startDate = None, arg_endDate = None,
              arg_calendarName = Some calendarName, arg_location = None,
              arg_description = None, arg_isAllDay = isAllDay, arg_alarms = alarms,
              arg_eventSummary = Some eventSummary, arg_newTitle = None\<rparr>\<rparr> log =
     (Inr (text_result
             (JObject [(''success'', JBool True), (''message'', JString ''Event updated''),
                       (''eventSummary'', JString eventSummary)])), log)"
  by (simp add: callToolHandler_def switch_name_def updateEvent_no_fields)

text \<open>
  C10. Called with an event summary and a calendar name, updateEvent starts the
  interpreter exactly when a field is supplied: a new title, start date or end date
  that is a non-empty string, or a location or a description that is present, be it
  the empty string. It starts it at most once, with the script built from the fields.
\<close>

theorem updateEvent_calls_iff_supplied:
  "((snd (updateEvent rt (Some eventSummary) (Some calendarName) newTitle startDate endDate
            location description log) \<noteq> log)
    = ((newTitle \<noteq> None \<and> newTitle \<noteq> Some []) \<or> (startDate \<noteq> None \<and> startDate \<noteq> Some [])
       \<or> (endDate \<noteq> None \<and> endDate \<noteq> Some []) \<or> location \<noteq> None \<or> description \<noteq> None))
   \<and> snd (updateEvent rt (Some eventSummary) (Some calendarName) newTitle startDate endDate
            location description log)
       \<in> {log, log @ [osascript (updateEvent_script eventSummary calendarName
                    (setProperties rt newTitle startDate endDate location description))]}"
  using setProperties_empty_iff [of rt newTitle startDate endDate location description]
    snd_updateEvent [of rt eventSummary calendarName newTitle startDate endDate location
      description log]
  by (auto simp add: truthy_iff)

theorem updateEvent_calls_iff_supplied_witness:
  "snd (updateEvent example_runtime (Some ''Standup'') (Some ''Work'') None None None (Some [])
          None []) \<noteq> []
   \<and> snd (updateEvent example_runtime (Some ''Standup'') (Some ''Work'') (Some []) (Some [])
            (Some []) None None []) = []"
  using updateEvent_calls_iff_supplied
          [of example_runtime "''Standup''" "''Work''" None None None "Some []" None "[]"]
        updateEvent_calls_iff_supplied
          [of example_runtime "''Standup''" "''Work''" "Some []" "Some []" "Some []" None None "[]"]
  by simp

subsection \<open>runAppleScript: results and failures\<close>

lemma runAppleScript_Resolved:
  "execFileAsync rt (osascript script) = Resolved out \<Longrightarrow>
     runAppleScript rt script log = (Inr (trim out), log @ [osascript script])"
  by (simp add: runAppleScript_def)

lemma runAppleScript_Rejected:
  "execFileAsync rt (osascript script) = Rejected e \<Longrightarrow>
     runAppleScript rt script log =
       (Inl (McpError InternalError (failure_text e)), log @ [osascript script])"
  by (simp add: runAppleScript_def)

lemma failure_text_cases:
  "failure_text e =
     (case stderr e of
        Some s \<Rightarrow> if s \<noteq> [] then s
                  else (case message e of
                          Some m \<Rightarrow> if m \<noteq> [] then m else ''AppleScript error''
                        | None \<Rightarrow> ''AppleScript error'')
      | None \<Rightarrow> (case message e of
                          Some m \<Rightarrow> if m \<noteq> [] then m else ''AppleScript error''
                        | None \<Rightarrow> ''AppleScript error''))"
  by (simp add: failure_text_def split: option.split)

text \<open>
  C6. runAppleScript starts one subprocess, \<^verbatim>\<open>osascript -e\<close> with the launch
  script, under a time limit of 30 seconds (30000 ms). When the subprocess is rejected
  (it exited with a non-zero status or ran into the limit), the result is an internal
  error whose text is the standard error of the subprocess when that is not empty,
  otherwise the message of the rejection, otherwise the fixed text
  \<^verbatim>\<open>AppleScript error\<close>. When it succeeds, the result is its standard output,
  trimmed. There is no other failure.
\<close>

theorem runAppleScript_contract:
  "snd (runAppleScript rt script log) =
     log @ [\<lparr>exec_file = ''osascript'', exec_args = [''-e'', launchScript script],
             exec_timeout = 30 * 1000\<rparr>]
   \<and> (\<forall>out. execFileAsync rt (osascript script) = Resolved out \<longrightarrow>
          fst (runAppleScript rt script log) = Inr (trim out))
   \<and> (\<forall>e. execFileAsync rt (osascript script) = Rejected e \<longrightarrow>
          fst (runAppleScript rt script log) =
            Inl (McpError InternalError
                   (if stderr e \<noteq> None \<and> stderr e \<noteq> Some [] then the (stderr e)
                    else if message e \<noteq> None \<and> message e \<noteq> Some [] then the (message e)
                    else ''AppleScript error'')))
   \<and> (\<forall>x. fst (runAppleScript rt script log) = Inl x \<longrightarrow>
          (\<exists>e. execFileAsync rt (osascript script) = Rejected e
               \<and> x = McpError InternalError (failure_text e)))"
proof (intro conjI allI impI)
  show "snd (runAppleScript rt script log) =
     log @ [\<lparr>exec_file = ''osascript'', exec_args = [''-e'', launchScript script],
             exec_timeout = 30 * 1000\<rparr>]"
    by (simp add: runAppleScript_def osascript_def split: exec_result.split)
next
  fix out assume "execFileAsync rt (osascript script) = Resolved out"
  then show "fst (runAppleScript rt script log) = Inr (trim out)"
    by (simp add: runAppleScript_Resolved)
next
  fix e assume "execFileAsync rt (osascript script) = Rejected e"
  then show "fst (runAppleScript rt script log) =
            Inl (McpError InternalError
                   (if stderr e \<noteq> None \<and> stderr e \<noteq> Some [] then the (stderr e)
                    else if message e \<noteq> None \<and> message e \<noteq> Some [] then the (message e)
                    else ''AppleScript error''))"
    by (auto simp add: runAppleScript_Rejected failure_text_cases split: option.split)
next
  fix x assume "fst (runAppleScript rt script log) = Inl x"
  then show "\<exists>e. execFileAsync rt (osascript script) = Rejected e
               \<and> x = McpError InternalError (failure_text e)"
    by (cases "execFileAsync rt (osascript script)") (auto simp add: runAppleScript_def)
qed

theorem runAppleScript_contract_witness:
  "fst (runAppleScript example_runtime ''return 1'' []) = Inr ''created''
   \<and> fst (runAppleScript
            (example_runtime\<lparr>execFileAsync :=
               (\<lambda>c. Rejected \<lparr>stderr = Some [], message = Some ''Command failed''\<rparr>)\<rparr>)
            ''return 1'' []) = Inl (McpError InternalError ''Command failed'')
   \<and> fst (runAppleScript
            (example_runtime\<lparr>execFileAsync :=
               (\<lambda>c. Rejected \<lparr>stderr = Some ''execution error'', message = Some ''Command failed''\<rparr>)\<rparr>)
            ''return 1'' []) = Inl (McpError InternalError ''execution error'')
   \<and> fst (runAppleScript
            (example_runtime\<lparr>execFileAsync := (\<lambda>c. Rejected \<lparr>stderr = None, message = None\<rparr>)\<rparr>)
            ''return 1'' []) = Inl (McpError InternalError ''AppleScript error'')"
  (is "?ok \<and> ?generic \<and> ?diagnostic \<and> ?fixed")
proof -
  have "execFileAsync example_runtime (osascript ''return 1'') = Resolved (''created'' @ [nl])"
    by (simp add: example_runtime_def)
  with runAppleScript_contract [of example_runtime "''return 1''" "[]"]
  have "fst (runAppleScript example_runtime ''return 1'' []) = Inr (trim (''created'' @ [nl]))"
    by blast
  then have ?ok
    by (simp add: trim_def is_space_def nl_def)
  moreover have ?generic
    using runAppleScript_contract
            [of "example_runtime\<lparr>execFileAsync :=
                   (\<lambda>c. Rejected \<lparr>stderr = Some [], message = Some ''Command failed''\<rparr>)\<rparr>"
                "''return 1''" "[]"]
    by simp
  moreover have ?diagnostic
    using runAppleScript_contract
            [of "example_runtime\<lparr>execFileAsync :=
                   (\<lambda>c. Rejected \<lparr>stderr = Some ''execution error'',
                                       message = Some ''Command failed''\<rparr>)\<rparr>"
                "''return 1''" "[]"]
    by simp
  moreover have ?fixed
    using runAppleScript_contract
            [of "example_runtime\<lparr>execFileAsync := (\<lambda>c. Rejected \<lparr>stderr = None, message = None\<rparr>)\<rparr>"
                "''return 1''" "[]"]
    by simp
  ultimately show ?thesis
    by blast
qed

subsection \<open>Cutting and joining strings\<close>

lemma split_from_not_Nil: "split_from sep cur s \<noteq> []"
  by (induction sep cur s rule: split_from.induct) simp_all

lemma join_Cons: "xs \<noteq> [] \<Longrightarrow> join sep (x # xs) = x @ sep @ join sep xs"
  by (cases xs) simp_all

lemma join_split_from: "join sep (split_from sep cur s) = rev cur @ s"
proof (induction sep cur s rule: split_from.induct)
  case (1 sep cur)
  show ?case by simp
next
  case (2 sep cur c cs)
  show ?case
  proof (cases "sep \<noteq> [] \<and> take (length sep) (c # cs) = sep")
    case True
    then have "join sep (split_from sep cur (c # cs)) =
        rev cur @ sep @ join sep (split_from sep [] (drop (length sep) (c # cs)))"
      by (simp add: join_Cons split_from_not_Nil)
    also have "\<dots> = rev cur @ take (length sep) (c # cs) @ drop (length sep) (c # cs)"
      using True "2.IH"(1) by simp
    finally show ?thesis
      by (simp only: append_take_drop_id)
  next
    case False
    then show ?thesis
      using "2.IH"(2) by auto
  qed
qed

lemma join_split: "sep \<noteq> [] \<Longrightarrow> join sep (split s sep) = s"
  by (simp add: split_def join_split_from)

text \<open>
  No piece holds the separator: a character joins the piece being read only after the
  separator was not found at its position.
\<close>

lemma split_from_pieces_free:
  assumes "sep \<noteq> []"
    and "\<And>a b. rev cur @ s = a @ sep @ b \<Longrightarrow> length cur \<le> length a"
    and "p \<in> set (split_from sep cur s)"
  shows "p \<noteq> a @ sep @ b"
  using assms
proof (induction sep cur s arbitrary: a b rule: split_from.induct)
  case (1 sep cur)
  show ?case
  proof
    assume "p = a @ sep @ b"
    with "1.prems"(3) have "rev cur @ [] = a @ sep @ b"
      by simp
    then have "length cur \<le> length a" and "length cur = length a + length sep + length b"
      using "1.prems"(2) by (blast, metis append_Nil2 length_append length_rev add.assoc)
    with "1.prems"(1) show False
      by simp
  qed
next
  case (2 sep cur c cs)
  show ?case
  proof (cases "take (length sep) (c # cs) = sep")
    case True
    with "2.prems"(1,3) consider "p = rev cur"
      | "p \<in> set (split_from sep [] (drop (length sep) (c # cs)))"
      by auto
    then show ?thesis
    proof cases
      case 1
      show ?thesis
      proof
        assume "p = a @ sep @ b"
        with 1 have "rev cur @ c # cs = a @ sep @ (b @ c # cs)"
          by simp
        then have "length cur \<le> length a"
          using "2.prems"(2) by blast
        moreover from 1 \<open>p = a @ sep @ b\<close> have "length cur = length a + length sep + length b"
          by (metis length_append length_rev add.assoc)
        ultimately show False
          using "2.prems"(1) by simp
      qed
    next
      case 2
      with "2.IH"(1) [of a b] True "2.prems"(1) show ?thesis
        by simp
    qed
  next
    case False
    with "2.prems"(3) have member: "p \<in> set (split_from sep (c # cur) cs)"
      by simp
    have "length (c # cur) \<le> length a'" if eq: "rev (c # cur) @ cs = a' @ sep @ b'" for a' b'
    proof -
      from eq have eq': "rev cur @ c # cs = a' @ sep @ b'"
        by simp
      then have "length cur \<le> length a'"
        using "2.prems"(2) by blast
      moreover have "length a' \<noteq> length cur"
      proof
        assume "length a' = length cur"
        with eq' have "c # cs = sep @ b'"
          by (metis append_eq_append_conv length_rev)
        then have "take (length sep) (c # cs) = sep"
          by simp
        with False show False
          by blast
      qed
      ultimately show ?thesis
        by simp
    qed
    with "2.IH"(2) [of a b] False member "2.prems"(1) show ?thesis
      by blast
  qed
qed

lemma split_pieces_free:
  assumes "sep \<noteq> []" and "p \<in> set (split s sep)"
  shows "p \<noteq> a @ sep @ b"
  using assms split_from_pieces_free [of sep "[]" s p a b]
  by (simp add: split_def)

subsection \<open>The reply parser of listEvents\<close>

lemma decimal_small:
  "decimal 0 = ''0''" "decimal (Suc 0) = ''1''" "decimal 1 = ''1''" "decimal 2 = ''2''" "decimal 3 = ''3''"
  "decimal 9 = ''9''" "decimal 15 = ''15''" "decimal 2024 = ''2024''"
  by code_simp+

lemma or_else_at_index:
  "or_else (at_index parts k) [] = (if k < length parts then parts ! k else [])"
  by (simp add: at_index_def)

lemma at_index_eq_Some: "(at_index parts k = Some v) = (k < length parts \<and> parts ! k = v)"
  by (auto simp add: at_index_def)

lemma length_parseEvents: "length (parseEvents reply) = length (split reply ''~~~'')"
  by (simp add: parseEvents_def)

lemma nth_parseEvents:
  assumes "i < length (split reply ''~~~'')"
  shows "parseEvents reply ! i =
     (let parts = split (split reply ''~~~'' ! i) ''|||''
      in \<lparr>ei_id = decimal i,
          ei_summary = (if 0 < length parts then parts ! 0 else []),
          ei_startDate = (if 1 < length parts then parts ! 1 else []),
          ei_endDate = (if 2 < length parts then parts ! 2 else []),
          ei_location = (if 3 < length parts then parts ! 3 else []),
          ei_description = [],
          ei_calendar = (if 4 < length parts then parts ! 4 else []),
          ei_isAllDay = (5 < length parts \<and> parts ! 5 = ''true'')\<rparr>)"
  using assms
  by (simp add: parseEvents_def nth_enumerate_eq Let_def or_else_at_index at_index_eq_Some
        del: or_else.simps)

text \<open>
  C9. The reply parser returns one event for each piece of the reply cut at
  \<^verbatim>\<open>~~~\<close> (the pieces joined with \<^verbatim>\<open>~~~\<close> are the reply), whatever the reply
  is. The event at position \<open>i\<close> comes from the fields of piece \<open>i\<close> cut at
  \<^verbatim>\<open>|||\<close>: its id is the decimal text of \<open>i\<close>; summary, start date, end date,
  location and calendar are fields 0 to 4, each the empty string when the piece has no
  such field; its description is the empty string; it is an all-day event exactly when
  the piece has a field 5 and that field is \<^verbatim>\<open>true\<close>. No piece holds
  \<^verbatim>\<open>~~~\<close> and no field holds \<^verbatim>\<open>|||\<close>, and the fields of a piece joined with
  \<^verbatim>\<open>|||\<close> are the piece.
\<close>

theorem parseEvents_records:
  "length (parseEvents reply) = length (split reply ''~~~'')
   \<and> join ''~~~'' (split reply ''~~~'') = reply
   \<and> (\<forall>i < length (split reply ''~~~'').
        (let parts = split (split reply ''~~~'' ! i) ''|||'';
             e = parseEvents reply ! i
         in join ''|||'' parts = split reply ''~~~'' ! i
            \<and> ei_id e = decimal i
            \<and> ei_summary e = (if 0 < length parts then parts ! 0 else [])
            \<and> ei_startDate e = (if 1 < length parts then parts ! 1 else [])
            \<and> ei_endDate e = (if 2 < length parts then parts ! 2 else [])
            \<and> ei_location e = (if 3 < length parts then parts ! 3 else [])
            \<and> ei_calendar e = (if 4 < length parts then parts ! 4 else [])
            \<and> ei_description e = []
            \<and> ei_isAllDay e = (5 < length parts \<and> parts ! 5 = ''true'')))
   \<and> (\<forall>piece \<in> set (split reply ''~~~'').
        (\<forall>a b. piece \<noteq> a @ ''~~~'' @ b)
        \<and> (\<forall>field \<in> set (split piece ''|||''). \<forall>a b. field \<noteq> a @ ''|||'' @ b))"
proof (intro conjI allI impI ballI)
  show "length (parseEvents reply) = length (split reply ''~~~'')"
    by (rule length_parseEvents)
  show "join ''~~~'' (split reply ''~~~'') = reply"
    by (simp add: join_split)
next
  fix piece a b assume "piece \<in> set (split reply ''~~~'')"
  then show "piece \<noteq> a @ ''~~~'' @ b"
    by (intro split_pieces_free [where s = reply]) simp_all
next
  fix piece field a b assume "field \<in> set (split piece ''|||'')"
  then show "field \<noteq> a @ ''|||'' @ b"
    by (intro split_pieces_free [where s = piece]) simp_all
next
  fix i assume "i < length (split reply ''~~~'')"
  then show "let parts = split (split reply ''~~~'' ! i) ''|||'';
             e = parseEvents reply ! i
         in join ''|||'' parts = split reply ''~~~'' ! i
            \<and> ei_id e = decimal i
            \<and> ei_summary e = (if 0 < length parts then parts ! 0 else [])
            \<and> ei_startDate e = (if 1 < length parts then parts ! 1 else [])
            \<and> ei_endDate e = (if 2 < length parts then parts ! 2 else [])
            \<and> ei_location e = (if 3 < length parts then parts ! 3 else [])
            \<and> ei_calendar e = (if 4 < length parts then parts ! 4 else [])
            \<and> ei_description e = []
            \<and> ei_isAllDay e = (5 < length parts \<and> parts ! 5 = ''true'')"
    by (simp add: nth_parseEvents Let_def join_split)
qed

lemma split_example:
  "split ''Standup|||a|||b|||Room|||Work|||true~~~Lunch|||c'' ''~~~'' =
     [''Standup|||a|||b|||Room|||Work|||true'', ''Lunch|||c'']"
  by (simp add: split_def)

lemma split_example_fields:
  "split ''Standup|||a|||b|||Room|||Work|||true'' ''|||'' =
     [''Standup'', ''a'', ''b'', ''Room'', ''Work'', ''true'']"
  "split ''Lunch|||c'' ''|||'' = [''Lunch'', ''c'']"
  by (simp_all add: split_def)

theorem parseEvents_records_witness:
  "length (parseEvents ''Standup|||a|||b|||Room|||Work|||true~~~Lunch|||c'') = 2
   \<and> ei_id (parseEvents ''Standup|||a|||b|||Room|||Work|||true~~~Lunch|||c'' ! 0) = ''0''
   \<and> ei_summary (parseEvents ''Standup|||a|||b|||Room|||Work|||true~~~Lunch|||c'' ! 0) = ''Standup''
   \<and> ei_calendar (parseEvents ''Standup|||a|||b|||Room|||Work|||true~~~Lunch|||c'' ! 0) = ''Work''
   \<and> ei_isAllDay (parseEvents ''Standup|||a|||b|||Room|||Work|||true~~~Lunch|||c'' ! 0)
   \<and> ei_id (parseEvents ''Standup|||a|||b|||Room|||Work|||true~~~Lunch|||c'' ! 1) = ''1''
   \<and> ei_summary (parseEvents ''Standup|||a|||b|||Room|||Work|||true~~~Lunch|||c'' ! 1) = ''Lunch''
   \<and> ei_startDate (parseEvents ''Standup|||a|||b|||Room|||Work|||true~~~Lunch|||c'' ! 1) = ''c''
   \<and> ei_endDate (parseEvents ''Standup|||a|||b|||Room|||Work|||true~~~Lunch|||c'' ! 1) = []
   \<and> ei_description (parseEvents ''Standup|||a|||b|||Room|||Work|||true~~~Lunch|||c'' ! 1) = []
   \<and> \<not> ei_isAllDay (parseEvents ''Standup|||a|||b|||Room|||Work|||true~~~Lunch|||c'' ! 1)
   \<and> ''Lunch|||c'' \<in> set (split ''Standup|||a|||b|||Room|||Work|||true~~~Lunch|||c'' ''~~~'')
   \<and> ''Lunch'' \<in> set (split ''Lunch|||c'' ''|||'')"
proof -
  let ?reply = "''Standup|||a|||b|||Room|||Work|||true~~~Lunch|||c''"
  note records = parseEvents_records [of ?reply]
  note each = records [THEN conjunct2, THEN conjunct2, THEN conjunct1, rule_format]
  have first: "0 < length (split ?reply ''~~~'')" and second: "1 < length (split ?reply ''~~~'')"
    by (simp_all add: split_example)
  have "length (parseEvents ?reply) = 2"
    using records by (simp add: split_example)
  moreover have "ei_id (parseEvents ?reply ! 0) = ''0''
      \<and> ei_summary (parseEvents ?reply ! 0) = ''Standup''
      \<and> ei_calendar (parseEvents ?reply ! 0) = ''Work''
      \<and> ei_isAllDay (parseEvents ?reply ! 0)"
    using each [OF first]
    by (simp add: split_example split_example_fields Let_def decimal_small)
  moreover have "ei_id (parseEvents ?reply ! 1) = ''1''
      \<and> ei_summary (parseEvents ?reply ! 1) = ''Lunch''
      \<and> ei_startDate (parseEvents ?reply ! 1) = ''c''
      \<and> ei_endDate (parseEvents ?reply ! 1) = []
      \<and> ei_description (parseEvents ?reply ! 1) = []
      \<and> \<not> ei_isAllDay (parseEvents ?reply ! 1)"
    using each [OF second]
    by (simp add: split_example split_example_fields Let_def decimal_small)
  moreover have "''Lunch|||c'' \<in> set (split ?reply ''~~~'')"
    and "''Lunch'' \<in> set (split ''Lunch|||c'' ''|||'')"
    by (simp_all add: split_example split_example_fields)
  ultimately show ?thesis
    by blast
qed

subsection \<open>listEvents on an empty reply\<close>

lemma listEvents_Resolved:
  assumes "execFileAsync rt (osascript (listEvents_script rt startDate endDate calendarName)) =
             Resolved out"
  shows "listEvents rt startDate endDate calendarName log =
           (Inr (if trim out = [] then [] else parseEvents (trim out)),
            log @ [osascript (listEvents_script rt startDate endDate calendarName)])"
  using assms by (simp add: listEvents_def runAppleScript_Resolved)

text \<open>
  C8. When the interpreter succeeds on the script of listEvents and its output is empty
  once trimmed, listEvents returns the empty list of events, not an error, and the
  list_events tool answers with the text of the empty array.
\<close>

theorem listEvents_empty_reply:
  assumes "execFileAsync rt
             (osascript (listEvents_script rt (arg_startDate a) (arg_endDate a)
                           (arg_calendarName a))) = Resolved out"
    and "trim out = []"
  shows "listEvents rt (arg_startDate a) (arg_endDate a) (arg_calendarName a) log =
           (Inr [],
            log @ [osascript (listEvents_script rt (arg_startDate a) (arg_endDate a)
                                (arg_calendarName a))])
         \<and> fst (callToolHandler rt \<lparr>req_name = ''list_events'', req_arguments = Some a\<rparr> log) =
             Inr \<lparr>content = [\<lparr>item_type = ''text'', item_text = ''[]''\<rparr>]\<rparr>"
proof -
  from assms have "listEvents rt (arg_startDate a) (arg_endDate a) (arg_calendarName a) log =
           (Inr [],
            log @ [osascript (listEvents_script rt (arg_startDate a) (arg_endDate a)
                                (arg_calendarName a))])"
    by (simp add: listEvents_Resolved)
  then show ?thesis
    by (simp add: callToolHandler_def switch_name_def text_result_def JSON_stringify_def)
qed

theorem listEvents_empty_reply_witness:
  "trim [CHR '' '', nl] = []
   \<and> fst (listEvents (example_runtime\<lparr>execFileAsync := (\<lambda>c. Resolved [CHR '' '', nl])\<rparr>)
            (Some ''2024-03-01T09:00:00'') (Some ''2024-03-01T09:15:00'') (Some ''Work'') []) =
       Inr []
   \<and> fst (callToolHandler (example_runtime\<lparr>execFileAsync := (\<lambda>c. Resolved [CHR '' '', nl])\<rparr>)
            \<lparr>req_name = ''list_events'',
             req_arguments =
               Some \<lparr>arg_title = None, arg_startDate = Some ''2024-03-01T09:00:00'',
                     arg_endDate = Some ''2024-03-01T09:15:00'',
                     arg_calendarName = Some ''Work'', arg_location = None,
                     arg_description = None, arg_isAllDay = None, arg_alarms = None,
                     arg_eventSummary = None, arg_newTitle = None\<rparr>\<rparr> []) =
       Inr \<lparr>content = [\<lparr>item_type = ''text'', item_text = ''[]''\<rparr>]\<rparr>"
proof -
  have blank: "trim [CHR '' '', nl] = []"
    by (simp add: trim_def is_space_def nl_def)
  have "execFileAsync (example_runtime\<lparr>execFileAsync := (\<lambda>c. Resolved [CHR '' '', nl])\<rparr>) c =
          Resolved [CHR '' '', nl]" for c
    by simp
  from listEvents_empty_reply [OF this blank, of
      "\<lparr>arg_title = None, arg_startDate = Some ''2024-03-01T09:00:00'',
                     arg_endDate = Some ''2024-03-01T09:15:00'',
                     arg_calendarName = Some ''Work'', arg_location = None,
                     arg_description = None, arg_isAllDay = None, arg_alarms = None,
                     arg_eventSummary = None, arg_newTitle = None\<rparr>" "[]"] blank
  show ?thesis
    by simp
qed

subsection \<open>create_event returns the title\<close>

lemma createEvent_Inr:
  assumes "createEvent rt title startDate endDate calendarName location description isAllDay
             alarms log = (Inr eventId, log')"
  shows "title = Some eventId"
  using assms
  by (auto simp add: createEvent_def split: option.splits prod.splits sum.splits)

lemma create_event_result:
  assumes "req_name request = ''create_event''"
    and "callToolHandler rt request log = (Inr result, log')"
  shows "\<exists>a title. req_arguments request = Some a \<and> arg_title a = Some title
           \<and> result = text_result (JObject [(''success'', JBool True),
                                             (''message'', JString ''Event created''),
                                             (''eventId'', JString title)])"
proof (cases "req_arguments request")
  case None
  with assms show ?thesis
    by (simp add: callToolHandler_def switch_name_def)
next
  case (Some a)
  obtain r l where c: "createEvent rt (arg_title a) (arg_startDate a) (arg_endDate a)
                        (arg_calendarName a) (arg_location a) (arg_description a)
                        (arg_isAllDay a) (arg_alarms a) log = (r, l)"
    by (cases "createEvent rt (arg_title a) (arg_startDate a) (arg_endDate a)
                        (arg_calendarName a) (arg_location a) (arg_description a)
                        (arg_isAllDay a) (arg_alarms a) log") blast
  show ?thesis
  proof (cases r)
    case (Inl e)
    with assms Some c show ?thesis
      by (simp add: callToolHandler_def switch_name_def)
  next
    case (Inr eventId)
    with c have "arg_title a = Some eventId"
      using createEvent_Inr by blast
    moreover from assms Some c Inr have "result = text_result (JObject [(''success'', JBool True),
                                             (''message'', JString ''Event created''),
                                             (''eventId'', JString eventId)])"
      by (simp add: callToolHandler_def switch_name_def)
    ultimately show ?thesis
      using Some by blast
  qed
qed

lemma create_event_Resolved:
  assumes "execFileAsync rt
             (osascript (createEvent_script rt title (arg_startDate a) (arg_endDate a)
                (arg_calendarName a) (arg_location a) (arg_description a) (arg_isAllDay a)
                (arg_alarms a))) = Resolved out"
    and "arg_title a = Some title"
  shows "fst (callToolHandler rt \<lparr>req_name = ''create_event'', req_arguments = Some a\<rparr> log) =
           Inr (text_result (JObject [(''success'', JBool True),
                                      (''message'', JString ''Event created''),
                                      (''eventId'', JString title)]))"
  using assms
  by (simp add: callToolHandler_def switch_name_def createEvent_def runAppleScript_Resolved)

text \<open>
  C7. Whenever a create_event call is answered with a result and not an error, the
  request carried a title and the result is the text of the object with
  \<^verbatim>\<open>success: true\<close>, the message \<^verbatim>\<open>Event created\<close> and an eventId equal to
  that title. In particular, when the interpreter succeeds on the script of the Standup
  request (title Standup, 2024-03-01T09:00:00 to 2024-03-01T09:15:00, calendar Work),
  the answer is that object with eventId Standup.
\<close>

theorem create_event_returns_title:
  "(req_name request = ''create_event'' \<and> callToolHandler rt request log = (Inr result, log')
      \<longrightarrow> (\<exists>a title. req_arguments request = Some a \<and> arg_title a = Some title
             \<and> result = text_result (JObject [(''success'', JBool True),
                                               (''message'', JString ''Event created''),
                                               (''eventId'', JString title)])))
   \<and> (\<forall>out. execFileAsync rt
                (osascript (createEvent_script rt ''Standup'' (Some ''2024-03-01T09:00:00'')
                   (Some ''2024-03-01T09:15:00'') (Some ''Work'') None None None None)) =
              Resolved out
          \<longrightarrow> fst (callToolHandler rt standup_request log) =
                Inr (text_result (JObject [(''success'', JBool True),
                                           (''message'', JString ''Event created''),
                                           (''eventId'', JString ''Standup'')])))"
proof (intro conjI impI allI)
  assume "req_name request = ''create_event'' \<and> callToolHandler rt request log = (Inr result, log')"
  then show "\<exists>a title. req_arguments request = Some a \<and> arg_title a = Some title
             \<and> result = text_result (JObject [(''success'', JBool True),
                                               (''message'', JString ''Event created''),
                                               (''eventId'', JString title)])"
    using create_event_result by blast
next
  fix out
  assume "execFileAsync rt
                (osascript (createEvent_script rt ''Standup'' (Some ''2024-03-01T09:00:00'')
                   (Some ''2024-03-01T09:15:00'') (Some ''Work'') None None None None)) =
              Resolved out"
  then show "fst (callToolHandler rt standup_request log) =
                Inr (text_result (JObject [(''success'', JBool True),
                                           (''message'', JString ''Event created''),
                                           (''eventId'', JString ''Standup'')]))"
    unfolding standup_request_def
    by (intro create_event_Resolved [where out = out]) simp_all
qed

lemma JSON_stringify_created:
  \<open>JSON_stringify (JObject [(''success'', JBool True), (''message'', JString ''Event created''),
                            (''eventId'', JString ''Standup'')]) =
   ''{'' @ [nl] @
   ''  "success": true,'' @ [nl] @
   ''  "message": "Event created",'' @ [nl] @
   ''  "eventId": "Standup"'' @ [nl] @
   ''}''\<close>
  by (simp add: JSON_stringify_def quoteJSON_def quoteJSON_char_def dq_def bs_def nl_def)

theorem create_event_returns_title_witness:
  \<open>fst (callToolHandler example_runtime standup_request []) =
     Inr \<lparr>content =
            [\<lparr>item_type = ''text'',
              item_text =
                ''{'' @ [nl] @
                ''  "success": true,'' @ [nl] @
                ''  "message": "Event created",'' @ [nl] @
                ''  "eventId": "Standup"'' @ [nl] @
                ''}''\<rparr>]\<rparr>
   \<and> (\<exists>a. req_arguments standup_request = Some a \<and> arg_title a = Some ''Standup'')\<close>
proof -
  note both = create_event_returns_title
    [of standup_request example_runtime "[]"
        "projr (fst (callToolHandler example_runtime standup_request []))"
        "snd (callToolHandler example_runtime standup_request [])"]
  have "execFileAsync example_runtime c = Resolved (''created'' @ [nl])" for c
    by (simp add: example_runtime_def)
  with both have answer: "fst (callToolHandler example_runtime standup_request []) =
      Inr (text_result (JObject [(''success'', JBool True),
                                 (''message'', JString ''Event created''),
                                 (''eventId'', JString ''Standup'')]))"
    by blast
  then have "callToolHandler example_runtime standup_request [] =
      (Inr (projr (fst (callToolHandler example_runtime standup_request []))),
       snd (callToolHandler example_runtime standup_request []))"
    by (simp add: prod_eq_iff)
  moreover have "req_name standup_request = ''create_event''"
    by (simp add: standup_request_def)
  ultimately have "\<exists>a title. req_arguments standup_request = Some a \<and> arg_title a = Some title
      \<and> projr (fst (callToolHandler example_runtime standup_request [])) =
          text_result (JObject [(''success'', JBool True),
                                (''message'', JString ''Event created''),
                                (''eventId'', JString title)])"
    using both by blast
  then have "\<exists>a. req_arguments standup_request = Some a \<and> arg_title a = Some ''Standup''"
    by (auto simp add: standup_request_def)
  with answer show ?thesis
    by (simp add: text_result_def JSON_stringify_created)
qed

subsection \<open>The list of tools: names and arguments\<close>

lemma tool_names: "map tool_name tools =
     [''list_calendars'', ''list_events'', ''create_event'', ''update_event'', ''delete_event'']"
  by (simp add: tools_def)

lemma tool_required: "map (\<lambda>t. required (inputSchema t)) tools =
     [[], [''startDate'', ''endDate''], [''title'', ''startDate'', ''endDate''],
      [''eventSummary'', ''calendarName''], [''eventSummary'', ''calendarName'']]"
  by (simp add: tools_def)

lemma tool_optional: "map optional_arguments tools =
     [[], [''calendarName''],
      [''calendarName'', ''isAllDay'', ''location'', ''description'', ''alarms''],
      [''newTitle'', ''startDate'', ''endDate'', ''location'', ''description''], []]"
  by (simp add: tools_def optional_arguments_def)

text \<open>
  C4. The handler that lists the tools answers every call with the same list and starts
  no subprocess. The list has exactly five tools, named list_calendars, list_events,
  create_event, update_event and delete_event in this order; their required arguments
  are none; startDate, endDate; title, startDate, endDate; eventSummary, calendarName;
  eventSummary, calendarName; their other arguments are none; calendarName;
  calendarName, isAllDay, location, description, alarms; newTitle, startDate, endDate,
  location, description; none.
\<close>

theorem listTools_registry:
  "fst (listToolsHandler log) = fst (listToolsHandler log')
   \<and> snd (listToolsHandler log) = log
   \<and> map tool_name (fst (listToolsHandler log)) =
       [''list_calendars'', ''list_events'', ''create_event'', ''update_event'', ''delete_event'']
   \<and> map (\<lambda>t. required (inputSchema t)) (fst (listToolsHandler log)) =
       [[], [''startDate'', ''endDate''], [''title'', ''startDate'', ''endDate''],
        [''eventSummary'', ''calendarName''], [''eventSummary'', ''calendarName'']]
   \<and> map optional_arguments (fst (listToolsHandler log)) =
       [[], [''calendarName''],
        [''calendarName'', ''isAllDay'', ''location'', ''description'', ''alarms''],
        [''newTitle'', ''startDate'', ''endDate'', ''location'', ''description''], []]"
  by (simp add: listToolsHandler_def tool_names tool_required tool_optional)

subsection \<open>formatDateForAppleScript: the rendered fields\<close>

lemma nat_int_succ: "nat (int m + 1) = Suc m"
  by arith

text \<open>
  C5, as amended. For every date string that the runtime reads as a valid instant,
  formatDateForAppleScript renders day/month/year hour:minute:00: the day of the month,
  the number of the month (the month index plus one) and the year in decimal, then the
  hour and the minute padded to two digits, in this order; the last field is always
  \<^verbatim>\<open>00\<close>, whatever the second of the instant is.
\<close>

theorem formatDate_rendering:
  assumes "parseDate rt isoDate = Valid_Date t"
  shows "formatDateForAppleScript rt (Some isoDate) =
           decimal (dayOfMonth t) @ ''/'' @ decimal (monthIndex t + 1) @ ''/''
           @ toString (Num (fullYear t)) @ '' ''
           @ padStart 2 (CHR ''0'') (decimal (hourOfDay t)) @ '':''
           @ padStart 2 (CHR ''0'') (decimal (minuteOfHour t)) @ '':00''"
  using assms by (simp add: formatDateForAppleScript_def Let_def nat_int_succ)

theorem formatDate_rendering_witness:
  "parseDate example_runtime ''2024-03-01T09:15:00'' =
     Valid_Date \<lparr>dayOfMonth = 1, monthIndex = 2, fullYear = 2024, hourOfDay = 9,
                  minuteOfHour = 15, secondOfMinute = 0\<rparr>
   \<and> formatDateForAppleScript example_runtime (Some ''2024-03-01T09:15:00'') =
       ''1/3/2024 09:15:00''"
proof -
  have p: "parseDate example_runtime ''2024-03-01T09:15:00'' =
     Valid_Date \<lparr>dayOfMonth = 1, monthIndex = 2, fullYear = 2024, hourOfDay = 9,
                  minuteOfHour = 15, secondOfMinute = 0\<rparr>"
    by (simp add: example_runtime_def)
  from formatDate_rendering [OF p] p show ?thesis
    by (simp add: decimal_small padStart_def)
qed

lemma formatDate_invalid:
  assumes "parseDate rt isoDate = Invalid_Date"
  shows "formatDateForAppleScript rt (Some isoDate) = ''NaN/NaN/NaN NaN:NaN:00''"
  using assms by (simp add: formatDateForAppleScript_def Let_def padStart_def)

text \<open>
  The claim as it was stated fails: an instant at second 30 is rendered with
  \<^verbatim>\<open>00\<close> in the place of the seconds.
\<close>

lemma formatDate_example:
  "formatDateForAppleScript example_runtime (Some ''2024-03-01T09:00:30'') = ''1/3/2024 09:00:00''"
  by (simp add: formatDateForAppleScript_def Let_def example_runtime_def decimal_small padStart_def)

theorem formatDate_seconds_counterexample:
  "parseDate example_runtime ''2024-03-01T09:00:30'' =
     Valid_Date \<lparr>dayOfMonth = 1, monthIndex = 2, fullYear = 2024, hourOfDay = 9,
                  minuteOfHour = 0, secondOfMinute = 30\<rparr>
   \<and> rendering_with_seconds
        \<lparr>dayOfMonth = 1, monthIndex = 2, fullYear = 2024, hourOfDay = 9,
         minuteOfHour = 0, secondOfMinute = 30\<rparr> = ''1/3/2024 09:00:30''
   \<and> formatDateForAppleScript example_runtime (Some ''2024-03-01T09:00:30'') =
       ''1/3/2024 09:00:00''
   \<and> formatDateForAppleScript example_runtime (Some ''2024-03-01T09:00:30'') \<noteq>
       rendering_with_seconds
         \<lparr>dayOfMonth = 1, monthIndex = 2, fullYear = 2024, hourOfDay = 9,
          minuteOfHour = 0, secondOfMinute = 30\<rparr>"
proof -
  have "decimal 30 = ''30''"
    by code_simp
  then have "rendering_with_seconds
        \<lparr>dayOfMonth = 1, monthIndex = 2, fullYear = 2024, hourOfDay = 9,
         minuteOfHour = 0, secondOfMinute = 30\<rparr> = ''1/3/2024 09:00:30''"
    by (simp add: rendering_with_seconds_def decimal_small padStart_def)
  moreover have "parseDate example_runtime ''2024-03-01T09:00:30'' =
     Valid_Date \<lparr>dayOfMonth = 1, monthIndex = 2, fullYear = 2024, hourOfDay = 9,
                  minuteOfHour = 0, secondOfMinute = 30\<rparr>"
    by (simp add: example_runtime_def)
  ultimately show ?thesis
    by (simp add: formatDate_example)
qed

end
